theory Spec2Isabelle
  imports Complex_Main
begin

section \<open>JavaScript numbers\<close>

text \<open>
  The dashboard code computes with JavaScript numbers.  A number is modelled as a real
  (finite values, without rounding, overflow or a signed zero) or one of the three
  non-finite values.  The arithmetic and the comparisons follow IEEE 754 on the
  non-finite values: \<open>NaN\<close> is contagious and compares false with everything.
  The code's numbers are binary64: each operation rounds, so a value the code computes
  can differ from the model's in its last places, and a finite result beyond the
  largest double is infinite in the code.  Comparisons of given values, and counts,
  are the same in both.
\<close>

datatype jsnum = Num real | PosInf | NegInf | NaN

fun isFinite :: "jsnum \<Rightarrow> bool" where
  "isFinite (Num _) = True"
| "isFinite _ = False"

fun isNaN :: "jsnum \<Rightarrow> bool" where
  "isNaN NaN = True"
| "isNaN _ = False"

fun js_neg :: "jsnum \<Rightarrow> jsnum" where
  "js_neg (Num a) = Num (- a)"
| "js_neg PosInf = NegInf"
| "js_neg NegInf = PosInf"
| "js_neg NaN = NaN"

fun js_add :: "jsnum \<Rightarrow> jsnum \<Rightarrow> jsnum" where
  "js_add (Num a) (Num b) = Num (a + b)"
| "js_add NaN _ = NaN"
| "js_add _ NaN = NaN"
| "js_add PosInf NegInf = NaN"
| "js_add NegInf PosInf = NaN"
| "js_add PosInf _ = PosInf"
| "js_add _ PosInf = PosInf"
| "js_add NegInf _ = NegInf"
| "js_add _ NegInf = NegInf"

definition js_sub :: "jsnum \<Rightarrow> jsnum \<Rightarrow> jsnum" where
  "js_sub x y = js_add x (js_neg y)"

text \<open>The sign of a number that is not \<open>NaN\<close>: \<open>-1\<close>, \<open>0\<close> or \<open>1\<close>.\<close>

fun js_sign :: "jsnum \<Rightarrow> int" where
  "js_sign (Num a) = (if a < 0 then - 1 else if a = 0 then 0 else 1)"
| "js_sign PosInf = 1"
| "js_sign NegInf = - 1"
| "js_sign NaN = 0"

definition signed_inf :: "int \<Rightarrow> jsnum" where
  "signed_inf s = (if s = 0 then NaN else if 0 < s then PosInf else NegInf)"

fun js_mul :: "jsnum \<Rightarrow> jsnum \<Rightarrow> jsnum" where
  "js_mul (Num a) (Num b) = Num (a * b)"
| "js_mul NaN _ = NaN"
| "js_mul _ NaN = NaN"
| "js_mul x y = signed_inf (js_sign x * js_sign y)"

fun js_div :: "jsnum \<Rightarrow> jsnum \<Rightarrow> jsnum" where
  "js_div (Num a) (Num b) = (if b = 0 then signed_inf (js_sign (Num a)) else Num (a / b))"
| "js_div NaN _ = NaN"
| "js_div _ NaN = NaN"
| "js_div (Num a) _ = Num 0"
| "js_div x (Num b) = signed_inf (js_sign x * (if b < 0 then - 1 else 1))"
| "js_div _ _ = NaN"

fun js_less :: "jsnum \<Rightarrow> jsnum \<Rightarrow> bool" where
  "js_less NaN _ = False"
| "js_less _ NaN = False"
| "js_less (Num a) (Num b) = (a < b)"
| "js_less _ NegInf = False"
| "js_less NegInf _ = True"
| "js_less PosInf _ = False"
| "js_less _ PosInf = True"

definition js_gt :: "jsnum \<Rightarrow> jsnum \<Rightarrow> bool" where
  "js_gt x y = js_less y x"

definition js_le :: "jsnum \<Rightarrow> jsnum \<Rightarrow> bool" where
  "js_le x y = (js_less x y \<or> (\<not> isNaN x \<and> x = y))"

definition js_ge :: "jsnum \<Rightarrow> jsnum \<Rightarrow> bool" where
  "js_ge x y = js_le y x"

text \<open>\<open>Math.max(a, b)\<close> and \<open>Math.min(a, b)\<close>: \<open>NaN\<close> if either argument is.\<close>

definition js_max :: "jsnum \<Rightarrow> jsnum \<Rightarrow> jsnum" where
  "js_max x y = (if isNaN x \<or> isNaN y then NaN else if js_less x y then y else x)"

definition js_min :: "jsnum \<Rightarrow> jsnum \<Rightarrow> jsnum" where
  "js_min x y = (if isNaN x \<or> isNaN y then NaN else if js_less y x then y else x)"

text \<open>\<open>Math.min(...xs)\<close> and \<open>Math.max(...xs)\<close> of a spread array; \<open>Infinity\<close> and
  \<open>-Infinity\<close> for the empty array.\<close>

definition Math_min :: "jsnum list \<Rightarrow> jsnum" where
  "Math_min xs = foldl js_min PosInf xs"

definition Math_max :: "jsnum list \<Rightarrow> jsnum" where
  "Math_max xs = foldl js_max NegInf xs"

text \<open>
  \<open>x ?? 0\<close> replaces only a missing value (\<open>null\<close> or \<open>undefined\<close>, here \<open>None\<close>);
  \<open>x || 0\<close> also replaces the falsy numbers \<open>0\<close> and \<open>NaN\<close>.
\<close>

fun nullish0 :: "jsnum option \<Rightarrow> jsnum" where
  "nullish0 None = Num 0"
| "nullish0 (Some x) = x"

fun or0 :: "jsnum option \<Rightarrow> jsnum" where
  "or0 None = Num 0"
| "or0 (Some NaN) = Num 0"
| "or0 (Some x) = x"

text \<open>
  \<open>parseFloat(x.toFixed(2))\<close>: \<open>toFixed\<close> rounds the magnitude to the nearest multiple of
  \<open>1/100\<close>, a tie going up, and keeps the sign; from \<open>10^21\<close> on, and for the non-finite
  values, it prints the number itself, which \<open>parseFloat\<close> reads back.
\<close>

definition round2 :: "real \<Rightarrow> real" where
  "round2 x = (if 10 ^ 21 \<le> \<bar>x\<bar> then x
               else sgn x * of_int \<lfloor>\<bar>x\<bar> * 100 + 1 / 2\<rfloor> / 100)"

fun toFixed2 :: "jsnum \<Rightarrow> jsnum" where
  "toFixed2 (Num x) = Num (round2 x)"
| "toFixed2 x = x"

section \<open>Trades\<close>

text \<open>
  The \<open>Trade\<close> interface of \<open>types.ts\<close>.  A field marked optional there, and
  \<open>pnl_pct\<close>, which every reader guards with \<open>??\<close> or \<open>||\<close>, may be missing.
\<close>

datatype side = buy | sell

record Trade =
  trade_id :: string
  symbol :: string
  pnl_pct :: "jsnum option"
  side :: side
  quantity :: jsnum
  price :: jsnum
  timestamp :: "string option"
  market :: "string option"
  entry_index :: "nat option"
  exit_index :: "nat option"
  duration :: "jsnum option"
  entry_time :: "string option"
  exit_time :: "string option"
  fee :: "jsnum option"

text \<open>A trade with the given \<open>pnl_pct\<close>, entry and exit time, for the examples.\<close>

definition example_trade :: "jsnum option \<Rightarrow> string option \<Rightarrow> string option \<Rightarrow> Trade" where
  "example_trade p en ex =
     \<lparr>trade_id = ''t'', symbol = ''BTCUSDT'', pnl_pct = p, side = buy, quantity = Num 1,
      price = Num 100, timestamp = None, market = None, entry_index = None,
      exit_index = None, duration = None, entry_time = en, exit_time = ex, fee = None\<rparr>"

text \<open>The trades' returns as reals, where they are finite (a missing one counts 0).\<close>

definition finite_pnl :: "Trade \<Rightarrow> bool" where
  "finite_pnl t = isFinite (nullish0 (pnl_pct t))"

fun the_real :: "jsnum \<Rightarrow> real" where
  "the_real (Num a) = a"
| "the_real _ = 0"

definition pnl_real :: "Trade \<Rightarrow> real" where
  "pnl_real t = the_real (nullish0 (pnl_pct t))"

section \<open>Summary statistics\<close>

text \<open>
  \<open>summaryStats\<close> of the dashboard page and the summary block of the
  \<open>PerformanceDashboard\<close> component compute the same four figures from the trade list:
  \<^verbatim>\<open>
  const totalTrades = trades.length;
  const winningTrades = trades.filter(t => (t.pnl_pct ?? 0) > 0).length;
  const winRate = totalTrades > 0 ? (winningTrades / totalTrades) * 100 : 0;
  const totalReturn = trades.reduce((sum, t) => sum + (t.pnl_pct ?? 0), 0);
  const avgReturn = totalTrades > 0 ? totalReturn / totalTrades : 0;
  \<close>
\<close>

definition totalTrades :: "Trade list \<Rightarrow> nat" where
  "totalTrades trades = length trades"

definition winningTrades :: "Trade list \<Rightarrow> nat" where
  "winningTrades trades = length (filter (\<lambda>t. js_gt (nullish0 (pnl_pct t)) (Num 0)) trades)"

definition winRate :: "Trade list \<Rightarrow> jsnum" where
  "winRate trades =
     (if 0 < totalTrades trades
      then js_mul (js_div (Num (real (winningTrades trades))) (Num (real (totalTrades trades))))
             (Num 100)
      else Num 0)"

definition totalReturn :: "Trade list \<Rightarrow> jsnum" where
  "totalReturn trades = foldl (\<lambda>sum t. js_add sum (nullish0 (pnl_pct t))) (Num 0) trades"

definition avgReturn :: "Trade list \<Rightarrow> jsnum" where
  "avgReturn trades =
     (if 0 < totalTrades trades
      then js_div (totalReturn trades) (Num (real (totalTrades trades)))
      else Num 0)"

text \<open>
  \<open>summaryStats\<close> reads two further figures off the metrics object of the backend:
  \<open>sharpeRatio: metrics.sharpe_ratio || 0\<close> and \<open>maxDrawdown: metrics.max_drawdown || 0\<close>.
  The object is the list of its entries; a value is a number, \<open>null\<close> or \<open>undefined\<close>.
\<close>

datatype jsval = Undefined | Null | Number jsnum

fun number_of :: "jsval option \<Rightarrow> jsnum option" where
  "number_of (Some (Number n)) = Some n"
| "number_of _ = None"

definition summary_sharpeRatio :: "(string \<times> jsval) list \<Rightarrow> jsnum" where
  "summary_sharpeRatio metrics = or0 (number_of (map_of metrics ''sharpe_ratio''))"

definition summary_maxDrawdown :: "(string \<times> jsval) list \<Rightarrow> jsnum" where
  "summary_maxDrawdown metrics = or0 (number_of (map_of metrics ''max_drawdown''))"

text \<open>The compounded return of the specification: \<open>(\<Prod>(1 + pnl_i/100) - 1) * 100\<close>.\<close>

definition compounded_return :: "real list \<Rightarrow> real" where
  "compounded_return ps = (prod_list (map (\<lambda>p. 1 + p / 100) ps) - 1) * 100"

section \<open>Drawdown series\<close>

record DrawdownData =
  dd_timestamp :: string
  drawdown :: jsnum

text \<open>The decimal digits of a natural number, as a template literal prints it.\<close>

fun show_nat :: "nat \<Rightarrow> string" where
  "show_nat n =
     (if n < 10 then [''0123456789'' ! n]
      else show_nat (n div 10) @ [''0123456789'' ! (n mod 10)])"

text \<open>
  The series computed inside the \<open>PerformanceDashboard\<close> component:
  \<^verbatim>\<open>
  let cumulativePnl = 0;
  let peak = 0;
  const drawdownSeries = trades.map((trade, idx) => {
    cumulativePnl += trade.pnl_pct ?? 0;
    peak = Math.max(peak, cumulativePnl);
    const drawdown = peak > 0 ? ((cumulativePnl - peak) / peak) * 100 : 0;
    return {
      timestamp: trade.timestamp || `T${idx + 1}`,
      drawdown: isFinite(drawdown) ? drawdown : 0,
    };
  });
  \<close>
  The two mutable variables are carried along as arguments of the loop.
\<close>

definition timestamp_or_index :: "Trade \<Rightarrow> nat \<Rightarrow> string" where
  "timestamp_or_index trade idx =
     (case timestamp trade of
        None \<Rightarrow> ''T'' @ show_nat (idx + 1)
      | Some s \<Rightarrow> if s = [] then ''T'' @ show_nat (idx + 1) else s)"

fun drawdownSeries_from :: "jsnum \<Rightarrow> jsnum \<Rightarrow> nat \<Rightarrow> Trade list \<Rightarrow> DrawdownData list" where
  "drawdownSeries_from cumulativePnl peak idx [] = []"
| "drawdownSeries_from cumulativePnl peak idx (trade # rest) =
     (let cumulativePnl' = js_add cumulativePnl (nullish0 (pnl_pct trade));
          peak' = js_max peak cumulativePnl';
          dd = (if js_gt peak' (Num 0)
                then js_mul (js_div (js_sub cumulativePnl' peak') peak') (Num 100)
                else Num 0)
      in \<lparr>dd_timestamp = timestamp_or_index trade idx,
          drawdown = (if isFinite dd then dd else Num 0)\<rparr>
         # drawdownSeries_from cumulativePnl' peak' (idx + 1) rest)"

definition drawdownSeries :: "Trade list \<Rightarrow> DrawdownData list" where
  "drawdownSeries trades = drawdownSeries_from (Num 0) (Num 0) 0 trades"

text \<open>
  \<open>processDrawdownData\<close> of the dashboard page:
  \<^verbatim>\<open>
  let equity = 100;
  let peak = 100;
  return trades
    .filter((trade) => trade.exit_time)
    .sort((a, b) => (a.exit_time || "").localeCompare(b.exit_time || ""))
    .map((trade) => {
      equity *= 1 + (trade.pnl_pct || 0) / 100;
      peak = Math.max(peak, equity);
      const drawdown = peak > 0 ? ((peak - equity) / peak) * 100 : 0;
      return {
        timestamp: trade.exit_time?.split("T")[0] || "",
        drawdown: parseFloat(drawdown.toFixed(2)),
      };
    });
  \<close>
  The equity, the peak and the decline are exact here, and \<open>toFixed(2)\<close> rounds the
  exact decline.  The code rounds the binary64 decline, so where the exact decline lies
  on a rounding tie the code's two decimals can differ by 0.01: for one trade of
  \<open>pnl_pct = -12.345\<close> the exact decline is 12.345, the binary64 one just below it.  The
  properties below evaluate the function only where each operation is exact or its
  rounding cancels (the two example trades), and otherwise use its structure.
  \<open>localeCompare\<close> depends on the locale of the browser, so the comparison of two strings
  is a parameter: it returns a negative number, zero or a positive number.
  \<open>Array.prototype.sort\<close> is stable; it is modelled by the stable insertion sort, which
  puts \<open>a\<close> before the first \<open>b\<close> with \<open>compare a b \<le> 0\<close>.
\<close>

type_synonym 'a comparator = "'a \<Rightarrow> 'a \<Rightarrow> int"

fun insert_sorted :: "'a comparator \<Rightarrow> 'a \<Rightarrow> 'a list \<Rightarrow> 'a list" where
  "insert_sorted cmp a [] = [a]"
| "insert_sorted cmp a (b # bs) =
     (if cmp a b \<le> 0 then a # b # bs else b # insert_sorted cmp a bs)"

definition array_sort :: "'a comparator \<Rightarrow> 'a list \<Rightarrow> 'a list" where
  "array_sort cmp xs = foldr (insert_sorted cmp) xs []"

definition has_exit_time :: "Trade \<Rightarrow> bool" where
  "has_exit_time trade = (case exit_time trade of None \<Rightarrow> False | Some s \<Rightarrow> s \<noteq> [])"

definition exit_time_or_empty :: "Trade \<Rightarrow> string" where
  "exit_time_or_empty trade = (case exit_time trade of None \<Rightarrow> [] | Some s \<Rightarrow> s)"

definition by_exit_time :: "string comparator \<Rightarrow> Trade comparator" where
  "by_exit_time localeCompare a b = localeCompare (exit_time_or_empty a) (exit_time_or_empty b)"

definition exit_date :: "Trade \<Rightarrow> string" where
  "exit_date trade =
     (case exit_time trade of None \<Rightarrow> [] | Some s \<Rightarrow> takeWhile (\<lambda>c. c \<noteq> CHR ''T'') s)"

fun processDrawdownData_from :: "jsnum \<Rightarrow> jsnum \<Rightarrow> Trade list \<Rightarrow> DrawdownData list" where
  "processDrawdownData_from equity peak [] = []"
| "processDrawdownData_from equity peak (trade # rest) =
     (let equity' = js_mul equity (js_add (Num 1) (js_div (or0 (pnl_pct trade)) (Num 100)));
          peak' = js_max peak equity';
          dd = (if js_gt peak' (Num 0)
                then js_mul (js_div (js_sub peak' equity') peak') (Num 100)
                else Num 0)
      in \<lparr>dd_timestamp = exit_date trade, drawdown = toFixed2 dd\<rparr>
         # processDrawdownData_from equity' peak' rest)"

definition processDrawdownData :: "string comparator \<Rightarrow> Trade list \<Rightarrow> DrawdownData list" where
  "processDrawdownData localeCompare trades =
     processDrawdownData_from (Num 100) (Num 100)
       (array_sort (by_exit_time localeCompare) (filter has_exit_time trades))"

text \<open>
  A comparison of strings by their code units, first difference first.  Two timestamps
  of one ISO 8601 format differ first at a digit, where every collation agrees with it;
  the examples below use it for \<open>localeCompare\<close>.
\<close>

fun compare_code_units :: "string comparator" where
  "compare_code_units [] [] = 0"
| "compare_code_units [] (d # ds) = - 1"
| "compare_code_units (c # cs) [] = 1"
| "compare_code_units (c # cs) (d # ds) =
     (if (of_char c :: nat) < of_char d then - 1
      else if (of_char d :: nat) < of_char c then 1
      else compare_code_units cs ds)"

text \<open>
  The \<open>DrawdownChart\<close> component shows twelve built-in points when it is given no data,
  and reports the least value of the series as "Max Drawdown":
  \<^verbatim>\<open>
  const sampleData = data.length > 0 ? data : [ { timestamp: '2024-01', drawdown: 0 }, ... ]
  const maxDrawdown = Math.min(...sampleData.map(d => d.drawdown))
  const avgDrawdown = sampleData.reduce((sum, d) => sum + d.drawdown, 0) / sampleData.length
  \<close>
\<close>

definition builtin_drawdowns :: "DrawdownData list" where
  "builtin_drawdowns =
     [\<lparr>dd_timestamp = ''2024-01'', drawdown = Num 0\<rparr>,
      \<lparr>dd_timestamp = ''2024-02'', drawdown = Num (- 2.5)\<rparr>,
      \<lparr>dd_timestamp = ''2024-03'', drawdown = Num (- 1.2)\<rparr>,
      \<lparr>dd_timestamp = ''2024-04'', drawdown = Num (- 5.8)\<rparr>,
      \<lparr>dd_timestamp = ''2024-05'', drawdown = Num (- 3.1)\<rparr>,
      \<lparr>dd_timestamp = ''2024-06'', drawdown = Num (- 0.8)\<rparr>,
      \<lparr>dd_timestamp = ''2024-07'', drawdown = Num (- 4.2)\<rparr>,
      \<lparr>dd_timestamp = ''2024-08'', drawdown = Num (- 2.3)\<rparr>,
      \<lparr>dd_timestamp = ''2024-09'', drawdown = Num (- 1.5)\<rparr>,
      \<lparr>dd_timestamp = ''2024-10'', drawdown = Num (- 3.7)\<rparr>,
      \<lparr>dd_timestamp = ''2024-11'', drawdown = Num (- 0.9)\<rparr>,
      \<lparr>dd_timestamp = ''2024-12'', drawdown = Num (- 2.1)\<rparr>]"

definition sampleData :: "DrawdownData list \<Rightarrow> DrawdownData list" where
  "sampleData data = (if 0 < length data then data else builtin_drawdowns)"

definition maxDrawdown :: "DrawdownData list \<Rightarrow> jsnum" where
  "maxDrawdown data = Math_min (map drawdown (sampleData data))"

definition avgDrawdown :: "DrawdownData list \<Rightarrow> jsnum" where
  "avgDrawdown data =
     js_div (foldl (\<lambda>sum d. js_add sum (drawdown d)) (Num 0) (sampleData data))
       (Num (real (length (sampleData data))))"

section \<open>The P&L histogram\<close>

record HistogramBin =
  range_label :: string
  count :: nat
  color :: string

record BinBounds =
  bin_min :: jsnum
  bin_max :: jsnum
  bin_range :: string
  bin_color :: string

text \<open>
  \<open>createHistogramData\<close> of the \<open>PnLHistogram\<close> component returns eight built-in bins
  when there are no trades, and otherwise counts the values \<open>pnl_pct ?? 0\<close> that satisfy
  \<open>val > bin.min && val <= bin.max\<close> for each of the eight bins.
\<close>

definition demo_histogram :: "HistogramBin list" where
  "demo_histogram =
     [\<lparr>range_label = ''< -5%'', count = 2, color = ''#dc2626''\<rparr>,
      \<lparr>range_label = ''-5% to -3%'', count = 5, color = ''#ea580c''\<rparr>,
      \<lparr>range_label = ''-3% to -1%'', count = 8, color = ''#f59e0b''\<rparr>,
      \<lparr>range_label = ''-1% to 0%'', count = 12, color = ''#fbbf24''\<rparr>,
      \<lparr>range_label = ''0% to 1%'', count = 15, color = ''#84cc16''\<rparr>,
      \<lparr>range_label = ''1% to 3%'', count = 10, color = ''#22c55e''\<rparr>,
      \<lparr>range_label = ''3% to 5%'', count = 6, color = ''#16a34a''\<rparr>,
      \<lparr>range_label = ''> 5%'', count = 3, color = ''#15803d''\<rparr>]"

definition bins :: "BinBounds list" where
  "bins =
     [\<lparr>bin_min = NegInf, bin_max = Num (- 5), bin_range = ''< -5%'', bin_color = ''#dc2626''\<rparr>,
      \<lparr>bin_min = Num (- 5), bin_max = Num (- 3), bin_range = ''-5% to -3%'', bin_color = ''#ea580c''\<rparr>,
      \<lparr>bin_min = Num (- 3), bin_max = Num (- 1), bin_range = ''-3% to -1%'', bin_color = ''#f59e0b''\<rparr>,
      \<lparr>bin_min = Num (- 1), bin_max = Num 0, bin_range = ''-1% to 0%'', bin_color = ''#fbbf24''\<rparr>,
      \<lparr>bin_min = Num 0, bin_max = Num 1, bin_range = ''0% to 1%'', bin_color = ''#84cc16''\<rparr>,
      \<lparr>bin_min = Num 1, bin_max = Num 3, bin_range = ''1% to 3%'', bin_color = ''#22c55e''\<rparr>,
      \<lparr>bin_min = Num 3, bin_max = Num 5, bin_range = ''3% to 5%'', bin_color = ''#16a34a''\<rparr>,
      \<lparr>bin_min = Num 5, bin_max = PosInf, bin_range = ''> 5%'', bin_color = ''#15803d''\<rparr>]"

definition pnlValues :: "Trade list \<Rightarrow> jsnum list" where
  "pnlValues trades = map (\<lambda>t. nullish0 (pnl_pct t)) trades"

definition in_bin :: "BinBounds \<Rightarrow> jsnum \<Rightarrow> bool" where
  "in_bin bin v = (js_gt v (bin_min bin) \<and> js_le v (bin_max bin))"

definition createHistogramData :: "Trade list \<Rightarrow> HistogramBin list" where
  "createHistogramData trades =
     (if length trades = 0 then demo_histogram
      else map (\<lambda>bin. \<lparr>range_label = bin_range bin,
                        count = length (filter (in_bin bin) (pnlValues trades)),
                        color = bin_color bin\<rparr>) bins)"

text \<open>
  The aggregate figures of the component, read off the histogram:
  \<^verbatim>\<open>
  const totalTrades = histogramData.reduce((sum, bin) => sum + bin.count, 0)
  const winningTrades = histogramData.filter((_, index) => index >= 4).reduce(...)
  const losingTrades = histogramData.filter((_, index) => index < 4).reduce(...)
  const winRate = totalTrades > 0 ? (winningTrades / totalTrades) * 100 : 50
  \<close>
\<close>

definition sum_counts :: "HistogramBin list \<Rightarrow> nat" where
  "sum_counts hs = foldl (\<lambda>sum bin. sum + count bin) 0 hs"

definition filter_index :: "(nat \<Rightarrow> bool) \<Rightarrow> 'a list \<Rightarrow> 'a list" where
  "filter_index p xs = map snd (filter (\<lambda>(index, _). p index) (enumerate 0 xs))"

definition hist_totalTrades :: "Trade list \<Rightarrow> nat" where
  "hist_totalTrades trades = sum_counts (createHistogramData trades)"

definition hist_winningTrades :: "Trade list \<Rightarrow> nat" where
  "hist_winningTrades trades =
     sum_counts (filter_index (\<lambda>index. 4 \<le> index) (createHistogramData trades))"

definition hist_losingTrades :: "Trade list \<Rightarrow> nat" where
  "hist_losingTrades trades =
     sum_counts (filter_index (\<lambda>index. index < 4) (createHistogramData trades))"

definition hist_winRate :: "Trade list \<Rightarrow> jsnum" where
  "hist_winRate trades =
     (if 0 < hist_totalTrades trades
      then js_mul (js_div (Num (real (hist_winningTrades trades)))
                          (Num (real (hist_totalTrades trades)))) (Num 100)
      else Num 50)"

section \<open>Risk metric cards\<close>

text \<open>
  The \<open>metrics\<close> object reaches \<open>RiskMetricCards\<close> as parsed JSON: its entries, in
  the order \<open>Object.entries\<close> lists them, each a number, \<open>null\<close> or \<open>undefined\<close>.
  \<^verbatim>\<open>
  // Filter metrics to remove null/undefined/NaN values
  const validMetrics = Object.entries(metrics).filter(
    ([_, value]) => value !== undefined && value !== null && !isNaN(value)
  );
  \<close>
  Every entry of \<open>validMetrics\<close> is rendered as one card.
\<close>

text \<open>The global \<open>isNaN\<close> converts its argument to a number first.\<close>

fun global_isNaN :: "jsval \<Rightarrow> bool" where
  "global_isNaN Undefined = True"
| "global_isNaN Null = False"
| "global_isNaN (Number n) = isNaN n"

definition validMetrics :: "(string \<times> jsval) list \<Rightarrow> (string \<times> jsval) list" where
  "validMetrics metrics =
     filter (\<lambda>(_, v). v \<noteq> Undefined \<and> v \<noteq> Null \<and> \<not> global_isNaN v) metrics"

fun finite_metric :: "jsval \<Rightarrow> bool" where
  "finite_metric (Number n) = isFinite n"
| "finite_metric _ = False"

section \<open>Condition operators\<close>

text \<open>The operators the strategy builder offers in the operator menu of a condition.\<close>

record Operator =
  op_value :: string
  label :: string

definition OPERATORS :: "Operator list" where
  "OPERATORS =
     [\<lparr>op_value = ''>'', label = ''Greater than (>)''\<rparr>,
      \<lparr>op_value = ''<'', label = ''Less than (<)''\<rparr>,
      \<lparr>op_value = ''>='', label = ''Greater or equal (>=)''\<rparr>,
      \<lparr>op_value = ''<='', label = ''Less or equal (<=)''\<rparr>,
      \<lparr>op_value = ''=='', label = ''Equal to (==)''\<rparr>,
      \<lparr>op_value = ''cross_above'', label = ''Cross above''\<rparr>,
      \<lparr>op_value = ''cross_below'', label = ''Cross below''\<rparr>]"

text \<open>
  A condition is built by \<open>addCondition\<close>, which starts from
  \<open>{ left: 'rsi', op: '>', right: '70' }\<close>, and by \<open>updateCondition\<close>, which the operator
  menu calls with the value of one of its options.
\<close>

record Condition =
  left :: string
  op :: string
  right :: string

definition newCondition :: Condition where
  "newCondition = \<lparr>left = ''rsi'', op = ''>'', right = ''70''\<rparr>"

definition offered_operators :: "string list" where
  "offered_operators = map op_value OPERATORS"

text \<open>The eight operators of the specification's \<open>Condition\<close>.\<close>

definition spec_operators :: "string set" where
  "spec_operators =
     {''>'', ''<'', ''>='', ''<='', ''=='', ''!='', ''cross_above'', ''cross_below''}"

section \<open>The return heatmap\<close>

text \<open>
  \<open>processHeatmapData\<close> of the dashboard page adds up \<open>pnl_pct\<close> by weekday and ISO
  week of the entry time.  The date library is taken as given: what \<open>format("ddd")\<close>,
  \<open>isoWeek()\<close> and \<open>year()\<close> print for a timestamp.
  \<^verbatim>\<open>
  const heatmapMap = new Map<string, number>();
  trades.forEach((trade) => {
    if (!trade.entry_time) return;
    const ts = dayjs(trade.entry_time);
    const weekday = ts.format("ddd");
    const week = `Week ${ts.isoWeek()}-${ts.year()}`;
    const key = `${weekday}|${week}`;
    heatmapMap.set(key, (heatmapMap.get(key) || 0) + (trade.pnl_pct ?? 0));
  });
  return Array.from(heatmapMap.entries()).map(([key, value]) => {
    const [weekday, week] = key.split("|");
    return { x: weekday, y: week, value: parseFloat(value.toFixed(2)) };
  });
  \<close>
  A \<open>Map\<close> keeps its keys in the order of their first insertion.
\<close>

record dayjs =
  format_ddd :: "string \<Rightarrow> string"
  isoWeek :: "string \<Rightarrow> string"
  year :: "string \<Rightarrow> string"

record HeatmapDataPoint =
  hm_x :: "string option"
  hm_y :: "string option"
  hm_value :: jsnum

fun map_get :: "(string \<times> jsnum) list \<Rightarrow> string \<Rightarrow> jsnum option" where
  "map_get [] k = None"
| "map_get ((k', v) # m) k = (if k' = k then Some v else map_get m k)"

fun map_set :: "(string \<times> jsnum) list \<Rightarrow> string \<Rightarrow> jsnum \<Rightarrow> (string \<times> jsnum) list" where
  "map_set [] k v = [(k, v)]"
| "map_set ((k', v') # m) k v = (if k' = k then (k, v) # m else (k', v') # map_set m k v)"

definition heatmap_key :: "dayjs \<Rightarrow> string \<Rightarrow> string" where
  "heatmap_key lib entry =
     format_ddd lib entry @ ''|'' @ ''Week '' @ isoWeek lib entry @ ''-'' @ year lib entry"

definition heatmap_visit :: "dayjs \<Rightarrow> (string \<times> jsnum) list \<Rightarrow> Trade \<Rightarrow> (string \<times> jsnum) list" where
  "heatmap_visit lib heatmapMap trade =
     (case entry_time trade of
        None \<Rightarrow> heatmapMap
      | Some entry \<Rightarrow>
          if entry = [] then heatmapMap
          else let key = heatmap_key lib entry
               in map_set heatmapMap key
                    (js_add (or0 (map_get heatmapMap key)) (nullish0 (pnl_pct trade))))"

text \<open>\<open>key.split("|")\<close>: the pieces between the separators, at least one.\<close>

fun split_on :: "char \<Rightarrow> string \<Rightarrow> string list" where
  "split_on sep [] = [[]]"
| "split_on sep (c # cs) =
     (case split_on sep cs of
        [] \<Rightarrow> [[c]]
      | piece # pieces \<Rightarrow> if c = sep then [] # piece # pieces else (c # piece) # pieces)"

fun nth_opt :: "'a list \<Rightarrow> nat \<Rightarrow> 'a option" where
  "nth_opt [] n = None"
| "nth_opt (a # as) 0 = Some a"
| "nth_opt (a # as) (Suc n) = nth_opt as n"

definition heatmap_point :: "string \<times> jsnum \<Rightarrow> HeatmapDataPoint" where
  "heatmap_point entry =
     (let pieces = split_on CHR ''|'' (fst entry)
      in \<lparr>hm_x = nth_opt pieces 0, hm_y = nth_opt pieces 1, hm_value = toFixed2 (snd entry)\<rparr>)"

definition processHeatmapData :: "dayjs \<Rightarrow> Trade list \<Rightarrow> HeatmapDataPoint list" where
  "processHeatmapData lib trades = map heatmap_point (foldl (heatmap_visit lib) [] trades)"

section \<open>Arrays in the heap\<close>

text \<open>
  To say that a function leaves the caller's array alone, the trade arrays live in a
  heap: a list of arrays, an array's reference being its index.  \<open>filter\<close> allocates a new
  array; \<open>sort\<close> sorts the array it is called on in place and returns the same reference;
  \<open>forEach\<close> and \<open>map\<close> only read.  The arrays of other element types that the three
  functions build (\<open>pnlValues\<close>, the result arrays, the \<open>Map\<close>) are local to the call and
  are returned as values.
\<close>

type_synonym heap = "Trade list list"
type_synonym ref = nat

definition heap_filter :: "(Trade \<Rightarrow> bool) \<Rightarrow> ref \<Rightarrow> heap \<Rightarrow> ref \<times> heap" where
  "heap_filter p r h = (length h, h @ [filter p (h ! r)])"

definition heap_sort :: "Trade comparator \<Rightarrow> ref \<Rightarrow> heap \<Rightarrow> ref \<times> heap" where
  "heap_sort cmp r h = (r, h[r := array_sort cmp (h ! r)])"

definition heap_processDrawdownData ::
    "string comparator \<Rightarrow> ref \<Rightarrow> heap \<Rightarrow> DrawdownData list \<times> heap" where
  "heap_processDrawdownData localeCompare trades h =
     (let (filtered, h1) = heap_filter has_exit_time trades h;
          (sorted, h2) = heap_sort (by_exit_time localeCompare) filtered h1
      in (processDrawdownData_from (Num 100) (Num 100) (h2 ! sorted), h2))"

definition heap_processHeatmapData :: "dayjs \<Rightarrow> ref \<Rightarrow> heap \<Rightarrow> HeatmapDataPoint list \<times> heap" where
  "heap_processHeatmapData lib trades h =
     (map heatmap_point (foldl (heatmap_visit lib) [] (h ! trades)), h)"

definition heap_createHistogramData :: "ref \<Rightarrow> heap \<Rightarrow> HistogramBin list \<times> heap" where
  "heap_createHistogramData trades h =
     (if length (h ! trades) = 0 then (demo_histogram, h)
      else (map (\<lambda>bin. \<lparr>range_label = bin_range bin,
                         count = length (filter (in_bin bin) (map (\<lambda>t. nullish0 (pnl_pct t)) (h ! trades))),
                         color = bin_color bin\<rparr>) bins, h))"

section \<open>Reference notions\<close>

text \<open>
  The notions the properties below compare the code with.  The equity curve of the
  specification: the equity after each trade, the starting equity \<open>e0\<close> multiplied by
  \<open>1 + pnl/100\<close> once per trade.
\<close>

definition equity_curve :: "real \<Rightarrow> real list \<Rightarrow> real list" where
  "equity_curve e0 ps =
     map (\<lambda>k. e0 * prod_list (map (\<lambda>p. 1 + p / 100) (take (Suc k) ps))) [0..<length ps]"

text \<open>The running peak at point \<open>k\<close> of a curve that started at \<open>p0\<close>, and the
  percentage decline of the curve from it.\<close>

definition running_peak :: "real \<Rightarrow> real list \<Rightarrow> nat \<Rightarrow> real" where
  "running_peak p0 es k = Max (set (p0 # take (Suc k) es))"

definition decline_pct :: "real \<Rightarrow> real list \<Rightarrow> nat \<Rightarrow> real" where
  "decline_pct p0 es k = (running_peak p0 es k - es ! k) / running_peak p0 es k * 100"

text \<open>The histogram of a non-empty list of values.\<close>

definition hist_of :: "jsnum list \<Rightarrow> HistogramBin list" where
  "hist_of vs = map (\<lambda>bin. \<lparr>range_label = bin_range bin,
                             count = length (filter (in_bin bin) vs),
                             color = bin_color bin\<rparr>) bins"

text \<open>Trades for the examples: a gain of 10 percent closed on 1 January, a loss of
  50 percent closed on 2 January, and a loss of 90 percent.\<close>

definition gain10 :: Trade where
  "gain10 = example_trade (Some (Num 10)) None (Some ''2024-01-01T09:00:00'')"

definition loss50 :: Trade where
  "loss50 = example_trade (Some (Num (- 50))) None (Some ''2024-01-02T09:00:00'')"

definition loss90 :: Trade where
  "loss90 = example_trade (Some (Num (- 90))) None None"

text \<open>A date library that prints fixed strings, for the examples.\<close>

definition fixed_dayjs :: dayjs where
  "fixed_dayjs = \<lparr>format_ddd = (\<lambda>_. ''Mon''), isoWeek = (\<lambda>_. ''1''), year = (\<lambda>_. ''2024'')\<rparr>"

section \<open>Total return\<close>

lemma foldl_add_finite:
  "\<forall>t\<in>set ts. finite_pnl t \<Longrightarrow>
   foldl (\<lambda>sum t. js_add sum (nullish0 (pnl_pct t))) (Num a) ts =
   Num (a + sum_list (map pnl_real ts))"
proof (induction ts arbitrary: a)
  case Nil
  then show ?case by simp
next
  case (Cons t ts)
  from Cons.prems have "finite_pnl t" by simp
  then obtain r where r: "nullish0 (pnl_pct t) = Num r"
    by (cases "nullish0 (pnl_pct t)") (simp_all add: finite_pnl_def)
  from Cons.prems have "\<forall>t\<in>set ts. finite_pnl t" by simp
  from Cons.IH [OF this, of "a + r"] r show ?case
    by (simp add: pnl_real_def add.assoc)
qed

text \<open>
  Claim C1, as the code has it: the Total Return shown for a trade list (by
  \<open>summaryStats\<close> and by the \<open>PerformanceDashboard\<close> summary alike) is the plain sum of
  the trades' \<open>pnl_pct\<close> values, a missing value counting 0.  It is not the compounded
  figure \<open>(\<Prod>(1 + pnl_i/100) - 1) * 100\<close>: two trades of 10 percent each show 20, where
  compounding gives 21.
\<close>

theorem C1_total_return_is_sum:
  "\<forall>t\<in>set trades. finite_pnl t \<Longrightarrow>
   totalReturn trades = Num (sum_list (map pnl_real trades))"
  using foldl_add_finite [of trades 0] by (simp add: totalReturn_def)

theorem C1_total_return_is_sum_witness:
  "finite_pnl (example_trade (Some (Num 10)) None None) \<and>
   finite_pnl (example_trade None None None) \<and>
   finite_pnl (example_trade (Some (Num (- 4))) None None) \<and>
   totalReturn [example_trade (Some (Num 10)) None None, example_trade None None None,
                example_trade (Some (Num (- 4))) None None] = Num 6"
  using C1_total_return_is_sum
    [of "[example_trade (Some (Num 10)) None None, example_trade None None None,
          example_trade (Some (Num (- 4))) None None]"]
  by (simp add: finite_pnl_def pnl_real_def example_trade_def)

theorem C1_total_return_not_compounded:
  "totalReturn [gain10, gain10] = Num 20 \<and>
   compounded_return (map pnl_real [gain10, gain10]) = 21 \<and>
   totalReturn [gain10, gain10] \<noteq> Num (compounded_return (map pnl_real [gain10, gain10]))"
  by (simp add: totalReturn_def compounded_return_def pnl_real_def gain10_def example_trade_def)

section \<open>Win rate and the histogram\<close>

lemma in_bin_exactly_one:
  "length (filter (\<lambda>b. in_bin b (Num r)) bins) = 1"
  by (simp add: bins_def in_bin_def js_gt_def js_le_def)

lemma hist_total_finite:
  "\<forall>v\<in>set vs. isFinite v \<Longrightarrow> sum_counts (hist_of vs) = length vs"
proof (induction vs)
  case Nil
  then show ?case by (simp add: hist_of_def bins_def sum_counts_def)
next
  case (Cons v vs)
  then obtain r where v: "v = Num r" by (cases v) simp_all
  from Cons have IH: "sum_counts (hist_of vs) = length vs" by simp
  show ?case using IH unfolding v
    by (simp add: hist_of_def bins_def sum_counts_def in_bin_def js_gt_def js_le_def)
qed

lemma hist_winners_finite:
  "\<forall>v\<in>set vs. isFinite v \<Longrightarrow>
   sum_counts (filter_index (\<lambda>index. 4 \<le> index) (hist_of vs)) =
   length (filter (\<lambda>v. js_gt v (Num 0)) vs)"
proof (induction vs)
  case Nil
  then show ?case
    by (simp add: hist_of_def bins_def sum_counts_def filter_index_def enumerate_eq_zip)
next
  case (Cons v vs)
  then obtain r where v: "v = Num r" by (cases v) simp_all
  from Cons have IH: "sum_counts (filter_index (\<lambda>index. 4 \<le> index) (hist_of vs)) =
    length (filter (\<lambda>v. js_gt v (Num 0)) vs)" by simp
  show ?case using IH unfolding v
    by (simp add: hist_of_def bins_def sum_counts_def in_bin_def js_gt_def js_le_def
        filter_index_def enumerate_eq_zip)
qed

lemma hist_split:
  "sum_counts (filter_index (\<lambda>index. 4 \<le> index) (hist_of vs)) +
   sum_counts (filter_index (\<lambda>index. index < 4) (hist_of vs)) = sum_counts (hist_of vs)"
  by (simp add: hist_of_def bins_def sum_counts_def filter_index_def enumerate_eq_zip)

lemma createHistogramData_nonempty:
  "trades \<noteq> [] \<Longrightarrow> createHistogramData trades = hist_of (pnlValues trades)"
  by (simp add: createHistogramData_def hist_of_def)

lemma finite_values:
  "\<forall>t\<in>set trades. finite_pnl t \<Longrightarrow> \<forall>v\<in>set (pnlValues trades). isFinite v"
  by (simp add: pnlValues_def finite_pnl_def)

lemma hist_totalTrades_finite:
  "trades \<noteq> [] \<Longrightarrow> \<forall>t\<in>set trades. finite_pnl t \<Longrightarrow> hist_totalTrades trades = length trades"
  using hist_total_finite [OF finite_values, of trades]
  by (simp add: hist_totalTrades_def createHistogramData_nonempty pnlValues_def)

lemma empty_histogram_figures:
  "hist_totalTrades [] = 61" "hist_winningTrades [] = 34" "hist_losingTrades [] = 27"
  by (simp_all add: hist_totalTrades_def hist_winningTrades_def hist_losingTrades_def
      createHistogramData_def demo_histogram_def sum_counts_def filter_index_def enumerate_eq_zip)

text \<open>
  Claim C5, as the code has it.  The Win Rate of the summary (\<open>summaryStats\<close> and the
  \<open>PerformanceDashboard\<close> block) is the number of trades with \<open>pnl_pct > 0\<close> over the number
  of trades, times 100, and 0 for no trades.  The Win Rate the \<open>PnLHistogram\<close> component
  shows is the same figure for every non-empty trade list with finite returns; for the
  empty list it is the win rate of the built-in bins, \<open>34/61 * 100\<close>.
\<close>

theorem C5_win_rate:
  "winRate trades =
     (if trades = [] then Num 0
      else Num (real (length (filter (\<lambda>t. js_gt (nullish0 (pnl_pct t)) (Num 0)) trades))
                / real (length trades) * 100)) \<and>
   (trades \<noteq> [] \<and> (\<forall>t\<in>set trades. finite_pnl t) \<longrightarrow> hist_winRate trades = winRate trades) \<and>
   hist_winRate [] = Num (3400 / 61)"
proof (intro conjI impI)
  show "winRate trades =
     (if trades = [] then Num 0
      else Num (real (length (filter (\<lambda>t. js_gt (nullish0 (pnl_pct t)) (Num 0)) trades))
                / real (length trades) * 100))"
    by (simp add: winRate_def totalTrades_def winningTrades_def)
next
  assume a: "trades \<noteq> [] \<and> (\<forall>t\<in>set trades. finite_pnl t)"
  then have ne: "trades \<noteq> []" and fin: "\<forall>t\<in>set trades. finite_pnl t" by simp_all
  have tot: "hist_totalTrades trades = length trades"
    by (rule hist_totalTrades_finite [OF ne fin])
  have win: "hist_winningTrades trades = winningTrades trades"
    using hist_winners_finite [OF finite_values [OF fin]] ne
    by (simp add: hist_winningTrades_def createHistogramData_nonempty winningTrades_def
        pnlValues_def filter_map comp_def)
  show "hist_winRate trades = winRate trades"
    using ne by (simp add: hist_winRate_def winRate_def tot win totalTrades_def)
next
  show "hist_winRate [] = Num (3400 / 61)"
    by (simp add: hist_winRate_def empty_histogram_figures)
qed

theorem C5_win_rate_witness:
  "winRate [gain10, loss50] = Num 50 \<and> hist_winRate [gain10, loss50] = Num 50"
  using C5_win_rate [of "[gain10, loss50]"]
  by (simp add: gain10_def loss50_def example_trade_def finite_pnl_def js_gt_def)

theorem C5_histogram_win_rate_of_no_trades:
  "hist_winRate [] = Num (3400 / 61) \<and> hist_winRate [] \<noteq> Num 0"
  by (simp add: hist_winRate_def empty_histogram_figures)

text \<open>
  Claim C9, as the code has it.  For every non-empty trade list with finite returns the
  eight bins partition the values: each trade's value lies in exactly one bin, the bin
  counts add up to the number of trades, and winners plus losers make the total.  For
  the empty list the histogram is the built-in one, whose counts add up to 61.
\<close>

theorem C9_bins_partition:
  assumes "trades \<noteq> []" and "\<forall>t\<in>set trades. finite_pnl t"
  shows "(\<forall>t\<in>set trades. length (filter (\<lambda>b. in_bin b (nullish0 (pnl_pct t))) bins) = 1) \<and>
         hist_totalTrades trades = length trades \<and>
         hist_winningTrades trades + hist_losingTrades trades = hist_totalTrades trades"
proof (intro conjI ballI)
  fix t assume "t \<in> set trades"
  with assms(2) have "finite_pnl t" by simp
  then obtain r where "nullish0 (pnl_pct t) = Num r"
    by (cases "nullish0 (pnl_pct t)") (simp_all add: finite_pnl_def)
  then show "length (filter (\<lambda>b. in_bin b (nullish0 (pnl_pct t))) bins) = 1"
    by (simp add: in_bin_exactly_one)
next
  show "hist_totalTrades trades = length trades"
    by (rule hist_totalTrades_finite [OF assms])
next
  show "hist_winningTrades trades + hist_losingTrades trades = hist_totalTrades trades"
    using assms(1)
    by (simp add: hist_totalTrades_def hist_winningTrades_def hist_losingTrades_def
        createHistogramData_nonempty hist_split)
qed

theorem C9_bins_partition_witness:
  "length (filter (\<lambda>b. in_bin b (nullish0 (pnl_pct gain10))) bins) = 1 \<and>
   length (filter (\<lambda>b. in_bin b (nullish0 (pnl_pct loss50))) bins) = 1 \<and>
   hist_totalTrades [gain10, loss50] = 2 \<and>
   hist_winningTrades [gain10, loss50] + hist_losingTrades [gain10, loss50] = 2"
proof -
  have ne: "[gain10, loss50] \<noteq> []" by simp
  have fin: "\<forall>t\<in>set [gain10, loss50]. finite_pnl t"
    by (simp add: gain10_def loss50_def example_trade_def finite_pnl_def)
  from C9_bins_partition [OF ne fin] show ?thesis by simp
qed

theorem C9_empty_list_counts_61:
  "sum_counts (createHistogramData []) = 61 \<and>
   sum_counts (createHistogramData []) \<noteq> length ([] :: Trade list)"
  by (simp add: createHistogramData_def demo_histogram_def sum_counts_def)

section \<open>No trades\<close>



section \<open>Metrics that reach the cards\<close>

lemma or0_not_NaN: "or0 v \<noteq> NaN"
  by (cases v rule: or0.cases) simp_all

text \<open>
  Claim C6, as the code has it.  The entries \<open>RiskMetricCards\<close> renders are exactly the
  entries of the metrics object whose value is a number other than \<open>NaN\<close>: \<open>null\<close>,
  \<open>undefined\<close> and \<open>NaN\<close> are dropped, \<open>Infinity\<close> and \<open>-Infinity\<close> are rendered.
  Likewise the two metrics of \<open>summaryStats\<close> are never \<open>NaN\<close>, which \<open>|| 0\<close> replaces
  by 0, but may be infinite.
\<close>

theorem C6_valid_metrics:
  "set (validMetrics metrics) =
     {(k, v). (k, v) \<in> set metrics \<and> (\<exists>n. v = Number n \<and> n \<noteq> NaN)} \<and>
   summary_sharpeRatio metrics \<noteq> NaN \<and> summary_maxDrawdown metrics \<noteq> NaN"
proof -
  have "(v \<noteq> Undefined \<and> v \<noteq> Null \<and> \<not> global_isNaN v) = (\<exists>n. v = Number n \<and> n \<noteq> NaN)"
    for v
  proof (cases v)
    case (Number n)
    then show ?thesis by (cases n) simp_all
  qed simp_all
  then show ?thesis
    by (auto simp add: validMetrics_def summary_sharpeRatio_def summary_maxDrawdown_def
        or0_not_NaN)
qed

theorem C6_infinity_is_rendered:
  "(''sharpe_ratio'', Number PosInf) \<in> set (validMetrics [(''sharpe_ratio'', Number PosInf)]) \<and>
   \<not> finite_metric (Number PosInf) \<and>
   summary_sharpeRatio [(''sharpe_ratio'', Number PosInf)] = PosInf"
  by (simp add: validMetrics_def summary_sharpeRatio_def)

section \<open>Operators\<close>

text \<open>
  Claim C7 on the code: the operator menu offers seven operators.  \<open>!=\<close>, which the
  specification and the README list, is not among them, so no condition built in the
  strategy builder can carry it.
\<close>

theorem C7_offered_operators:
  "offered_operators = [''>'', ''<'', ''>='', ''<='', ''=='', ''cross_above'', ''cross_below''] \<and>
   ''!='' \<notin> set offered_operators \<and> ''!='' \<in> spec_operators \<and>
   set offered_operators = spec_operators - {''!=''}"
  by (auto simp add: offered_operators_def OPERATORS_def spec_operators_def)

section \<open>Drawdown\<close>

lemma equity_curve_Cons:
  "equity_curve e0 (p # ps) = (e0 * (1 + p / 100)) # equity_curve (e0 * (1 + p / 100)) ps"
  by (simp add: equity_curve_def map_upt_Suc mult.assoc del: upt_Suc)

lemma set_insert_sorted: "set (insert_sorted cmp a bs) = insert a (set bs)"
  by (induction bs) auto

lemma set_array_sort: "set (array_sort cmp xs) = set xs"
  by (induction xs) (simp_all add: array_sort_def set_insert_sorted)

lemma length_insert_sorted: "length (insert_sorted cmp a bs) = Suc (length bs)"
  by (induction bs) auto

lemma length_array_sort: "length (array_sort cmp xs) = length xs"
  by (induction xs) (simp_all add: array_sort_def length_insert_sorted)

text \<open>With a comparison that is total and transitive the sorted array is in order.\<close>

lemma sorted_insert_sorted:
  assumes total: "\<And>a b. cmp a b \<le> 0 \<or> cmp b a \<le> 0"
    and trans: "\<And>a b c. cmp a b \<le> 0 \<Longrightarrow> cmp b c \<le> 0 \<Longrightarrow> cmp a c \<le> 0"
  shows "sorted_wrt (\<lambda>a b. cmp a b \<le> 0) bs \<Longrightarrow>
         sorted_wrt (\<lambda>a b. cmp a b \<le> 0) (insert_sorted cmp a bs)"
proof (induction bs)
  case Nil
  then show ?case by simp
next
  case (Cons b bs)
  show ?case
  proof (cases "cmp a b \<le> 0")
    case True
    with Cons.prems trans show ?thesis by auto
  next
    case False
    with total have "cmp b a \<le> 0" by blast
    with False Cons show ?thesis by (auto simp add: set_insert_sorted)
  qed
qed

lemma sorted_array_sort:
  assumes "\<And>a b. cmp a b \<le> 0 \<or> cmp b a \<le> 0"
    and "\<And>a b c. cmp a b \<le> 0 \<Longrightarrow> cmp b c \<le> 0 \<Longrightarrow> cmp a c \<le> 0"
  shows "sorted_wrt (\<lambda>a b. cmp a b \<le> 0) (array_sort cmp xs)"
proof (induction xs)
  case Nil
  show ?case by (simp add: array_sort_def)
next
  case (Cons x xs)
  from sorted_insert_sorted [of cmp, OF assms Cons] show ?case
    by (simp add: array_sort_def)
qed

lemma sorted_example:
  "array_sort (by_exit_time compare_code_units) (filter has_exit_time [loss50, gain10]) =
   [gain10, loss50]"
  by (simp add: array_sort_def by_exit_time_def has_exit_time_def gain10_def loss50_def
      example_trade_def exit_time_or_empty_def)

lemma processDrawdownData_example:
  "processDrawdownData compare_code_units [loss50, gain10] =
     [\<lparr>dd_timestamp = ''2024-01-01'', drawdown = Num 0\<rparr>,
      \<lparr>dd_timestamp = ''2024-01-02'', drawdown = Num 50\<rparr>]"
  unfolding processDrawdownData_def sorted_example
  by (simp add: gain10_def loss50_def example_trade_def exit_date_def js_max_def js_gt_def
      js_sub_def round2_def)

lemma drawdownSeries_example:
  "drawdownSeries [gain10, loss50] =
     [\<lparr>dd_timestamp = ''T1'', drawdown = Num 0\<rparr>,
      \<lparr>dd_timestamp = ''T2'', drawdown = Num (- 500)\<rparr>]"
  by (simp add: drawdownSeries_def gain10_def loss50_def example_trade_def
      timestamp_or_index_def js_max_def js_gt_def js_sub_def)

text \<open>
  Claim C2 on the code.  The page hands \<open>processDrawdownData\<close>'s series, whose values are
  declines counted positive, to \<open>DrawdownChart\<close>, which reports \<open>Math.min\<close> of the series
  as "Max Drawdown".  For a gain of 10 percent followed by a loss of 50 percent the
  series is 0, 50: the chart reports 0, the least decline, where the maximum
  peak-to-trough decline of the compounded equity curve is 50.
\<close>

theorem C2_max_drawdown_reports_least_decline:
  "processDrawdownData compare_code_units [loss50, gain10] =
     [\<lparr>dd_timestamp = ''2024-01-01'', drawdown = Num 0\<rparr>,
      \<lparr>dd_timestamp = ''2024-01-02'', drawdown = Num 50\<rparr>] \<and>
   maxDrawdown (processDrawdownData compare_code_units [loss50, gain10]) = Num 0 \<and>
   Math_max (map drawdown (processDrawdownData compare_code_units [loss50, gain10])) = Num 50"
  unfolding processDrawdownData_example
  by (simp add: maxDrawdown_def sampleData_def Math_min_def Math_max_def js_min_def js_max_def)

text \<open>
  Claim C3 on the code.  Of the two drawdown series, the one \<open>processDrawdownData\<close>
  produces follows the compounded equity curve: on a gain of 10 percent followed by a
  loss of 50 percent it holds the declines 0 and 50 of the equity 110, 55 from its peak.
  The one computed inside \<open>PerformanceDashboard\<close> does not: it adds the returns up and
  divides the distance of that sum below its peak by the peak, a ratio of percentage
  points.  On the same two trades its second point is -500, where the equity fell 50
  percent from its peak; on two losses of 90 percent, which leave one hundredth of the
  equity, both points are 0.
\<close>

theorem C3_dashboard_series_is_additive:
  "drawdownSeries [gain10, loss50] =
     [\<lparr>dd_timestamp = ''T1'', drawdown = Num 0\<rparr>,
      \<lparr>dd_timestamp = ''T2'', drawdown = Num (- 500)\<rparr>] \<and>
   map drawdown (processDrawdownData compare_code_units [loss50, gain10]) = [Num 0, Num 50] \<and>
   equity_curve 100 [10, - 50] = [110, 55] \<and>
   decline_pct 100 (equity_curve 100 [10, - 50]) 1 = 50 \<and>
   map drawdown (drawdownSeries [loss90, loss90]) = [Num 0, Num 0] \<and>
   equity_curve 100 [- 90, - 90] = [10, 1] \<and>
   decline_pct 100 (equity_curve 100 [- 90, - 90]) 1 = 99"
  unfolding drawdownSeries_example processDrawdownData_example
  by (simp add: equity_curve_Cons equity_curve_def decline_pct_def running_peak_def
      drawdownSeries_def loss90_def example_trade_def timestamp_or_index_def
      js_max_def js_gt_def Let_def)

section \<open>Purity of the three data functions\<close>

lemma heap_processDrawdownData_eq:
  "trades < length h \<Longrightarrow>
   heap_processDrawdownData localeCompare trades h =
     (processDrawdownData localeCompare (h ! trades),
      h @ [array_sort (by_exit_time localeCompare) (filter has_exit_time (h ! trades))])"
  by (simp add: heap_processDrawdownData_def heap_filter_def heap_sort_def
      processDrawdownData_def nth_append)

lemma heap_processHeatmapData_eq:
  "heap_processHeatmapData lib trades h = (processHeatmapData lib (h ! trades), h)"
  by (simp add: heap_processHeatmapData_def processHeatmapData_def)

lemma heap_createHistogramData_eq:
  "heap_createHistogramData trades h = (createHistogramData (h ! trades), h)"
  by (simp add: heap_createHistogramData_def createHistogramData_def pnlValues_def)

text \<open>
  Claim C10.  Each of \<open>processHeatmapData\<close>, \<open>processDrawdownData\<close> and
  \<open>createHistogramData\<close>, called on a trade array of the heap, returns what the function
  of the array's content returns, whatever else the heap holds; a second call on the
  heap the first call left returns the same output; and the call leaves every array
  that existed before it as it was, the caller's array among them.  \<open>processDrawdownData\<close>
  sorts the array that its \<open>filter\<close> allocated, so the only change to the heap is that new
  array; the other two functions change nothing.  The locale's string comparison and
  the date library are the same for both calls.
\<close>

theorem C10_deterministic_and_pure:
  assumes "trades < length h"
  shows "(let (out1, h1) = heap_processDrawdownData localeCompare trades h;
              (out2, h2) = heap_processDrawdownData localeCompare trades h1
          in out1 = processDrawdownData localeCompare (h ! trades) \<and> out2 = out1 \<and>
             take (length h) h1 = h \<and> h1 ! trades = h ! trades) \<and>
         (let (out1, h1) = heap_processHeatmapData lib trades h;
              (out2, h2) = heap_processHeatmapData lib trades h1
          in out1 = processHeatmapData lib (h ! trades) \<and> out2 = out1 \<and> h1 = h) \<and>
         (let (out1, h1) = heap_createHistogramData trades h;
              (out2, h2) = heap_createHistogramData trades h1
          in out1 = createHistogramData (h ! trades) \<and> out2 = out1 \<and> h1 = h)"
  using assms
  by (simp add: heap_processDrawdownData_eq heap_processHeatmapData_eq
      heap_createHistogramData_eq nth_append)

theorem C10_deterministic_and_pure_witness:
  "(0::nat) < length [[loss50, gain10]] \<and>
   snd (heap_processDrawdownData compare_code_units 0 [[loss50, gain10]]) ! 0 = [loss50, gain10] \<and>
   fst (heap_processDrawdownData compare_code_units 0 [[loss50, gain10]]) =
     processDrawdownData compare_code_units [loss50, gain10] \<and>
   fst (heap_processDrawdownData compare_code_units 0
          (snd (heap_processDrawdownData compare_code_units 0 [[loss50, gain10]]))) =
     fst (heap_processDrawdownData compare_code_units 0 [[loss50, gain10]]) \<and>
   heap_processHeatmapData fixed_dayjs 0 [[loss50, gain10]] =
     (processHeatmapData fixed_dayjs [loss50, gain10], [[loss50, gain10]]) \<and>
   heap_createHistogramData 0 [[loss50, gain10]] =
     (createHistogramData [loss50, gain10], [[loss50, gain10]])"
proof -
  have h: "(0::nat) < length [[loss50, gain10]]" by simp
  from C10_deterministic_and_pure [OF h, of compare_code_units fixed_dayjs] h
  show ?thesis by (simp add: split_def Let_def prod_eq_iff)
qed


end
